theory Spec2Isabelle
  imports Main "HOL-Library.Sublist"
begin

section \<open>The todo service of \<^verbatim>\<open>server.js\<close>\<close>

text \<open>
  The server keeps three pieces of state: the array \<^verbatim>\<open>invalidatedTokens\<close> and the two
  collections behind the models \<^verbatim>\<open>User\<close> and \<^verbatim>\<open>Todo\<close>. Every route handler becomes a
  function from the state to a response and a new state. The clock (\<^verbatim>\<open>Date.now()\<close>) and the
  identifier the driver gives to a new document are arguments of the handlers.

  Three libraries are called but are not part of the program. \<^verbatim>\<open>jsonwebtoken\<close>
  (\<^verbatim>\<open>jwt.sign\<close>, \<^verbatim>\<open>jwt.verify\<close>), the conversion of a string to an ObjectId, the
  regular-expression engine of the database and its reading of a query condition that is
  not a plain string are parameters, collected in the record \<open>lib\<close>. For the round trip
  of a token, the two token operations are also written out as the specification describes
  them (\<open>spec_sign\<close>, \<open>spec_verify\<close>).
  The collections themselves are lists of documents. The operations of the two Mongoose models
  that the handlers call are written out on these lists, following the two schemas of the
  program and the options the calls pass: a filter selects the documents for which all its
  terms hold, \<^verbatim>\<open>findOne\<close> and its variants act on the first such document, \<^verbatim>\<open>create\<close>
  validates against the schema, \<^verbatim>\<open>findOneAndUpdate\<close> does not.

  The values a request carries reach the collections in two ways. The login body and the
  query of the list route go into a query filter as they come, where an object is read as an
  operator: these are objects whose values are arbitrary JSON values (\<open>jsonobj\<close>). The bodies
  of signup and of the todo routes become fields of a document: these are modelled as objects
  whose values are strings (\<open>jsobj\<close>). An absent key is \<^verbatim>\<open>undefined\<close>. The rate limiter and
  the access log in front of the routes are not modelled: the model describes a request that
  the limiter has let through.
\<close>

subsection \<open>Documents, state, responses\<close>

type_synonym oid = nat

record todo =
  todo_id :: oid
  userId :: oid
  title :: string
  description :: string
  status :: string
  createdAt :: nat
  updatedAt :: nat

record user =
  user_id :: oid
  username :: string
  password :: string

text \<open>The decoded payload of a token, which the gate stores in \<^verbatim>\<open>req.user\<close>.\<close>

record jwt_payload =
  jwt_userId :: oid
  iat :: nat
  exp :: nat

datatype jwt_error = JwtMalformed | InvalidSignature | TokenExpired | OtherJwtError

datatype db_error = CastError | ValidationError | DuplicateKeyError | RegexError

text \<open>A value of a parsed JSON body or of a parsed query string.\<close>

datatype json =
    JNull
  | JBool bool
  | JNum int
  | JStr string
  | JArr "json list"
  | JObj "(string \<times> json) list"

record lib =
  jwt_sign :: "oid \<Rightarrow> string \<Rightarrow> string \<Rightarrow> nat \<Rightarrow> string"
  jwt_verify :: "string \<Rightarrow> string \<Rightarrow> nat \<Rightarrow> jwt_error + jwt_payload"
  castObjectId :: "string \<Rightarrow> oid option"
  pcre :: "string \<Rightarrow> (string \<Rightarrow> bool) option"
  query_op :: "json \<Rightarrow> (string \<Rightarrow> bool) option"

record server =
  invalidatedTokens :: "string list"
  users :: "user list"
  todos :: "todo list"

type_synonym jsobj = "string \<rightharpoonup> string"

type_synonym jsonobj = "string \<rightharpoonup> json"

datatype body =
    Error string
  | ErrMessage db_error
  | Message string
  | LoginOk string string
  | SignupOk string user
  | TodoDoc todo
  | TodoDocs "todo list"

record response =
  http_status :: nat
  body :: body

definition secretKey :: string where
  "secretKey = ''Hello123''"

subsection \<open>JavaScript helpers\<close>

text \<open>\<^verbatim>\<open>!!v\<close> for a value that is a string or \<^verbatim>\<open>undefined\<close>.\<close>

definition truthy :: "string option \<Rightarrow> bool" where
  "truthy v = (case v of None \<Rightarrow> False | Some s \<Rightarrow> s \<noteq> [])"

text \<open>\<^verbatim>\<open>!!v\<close> for a JSON value or \<^verbatim>\<open>undefined\<close>: arrays and objects are truthy.\<close>

definition truthy_json :: "json option \<Rightarrow> bool" where
  "truthy_json v =
     (case v of
        None \<Rightarrow> False
      | Some JNull \<Rightarrow> False
      | Some (JBool b) \<Rightarrow> b
      | Some (JNum n) \<Rightarrow> n \<noteq> 0
      | Some (JStr s) \<Rightarrow> s \<noteq> []
      | Some (JArr xs) \<Rightarrow> True
      | Some (JObj kvs) \<Rightarrow> True)"

text \<open>\<^verbatim>\<open>s.split(" ")\<close>: consecutive spaces give empty pieces, the empty string gives one
  empty piece.\<close>

fun split_sp :: "string \<Rightarrow> string list" where
  "split_sp [] = [[]]"
| "split_sp (c # cs) =
     (if c = CHR '' '' then [] # split_sp cs
      else (case split_sp cs of [] \<Rightarrow> [[c]] | w # ws \<Rightarrow> (c # w) # ws))"

text \<open>\<^verbatim>\<open>xs[i]\<close>, which is \<^verbatim>\<open>undefined\<close> out of range.\<close>

definition at_index :: "'a list \<Rightarrow> nat \<Rightarrow> 'a option" where
  "at_index xs i = (if i < length xs then Some (xs ! i) else None)"

text \<open>\<^verbatim>\<open>authHeader && authHeader.split(" ")[1]\<close>\<close>

definition token_of :: "string option \<Rightarrow> string option" where
  "token_of authHeader =
     (case authHeader of
        None \<Rightarrow> None
      | Some h \<Rightarrow> if h = [] then Some [] else at_index (split_sp h) 1)"

subsection \<open>The authentication gate\<close>

datatype auth_result = Respond response | Next jwt_payload

definition authenticateToken :: "lib \<Rightarrow> server \<Rightarrow> nat \<Rightarrow> string option \<Rightarrow> auth_result" where
  "authenticateToken L s now authHeader =
     (case token_of authHeader of
        None \<Rightarrow> Respond \<lparr>http_status = 401, body = Error ''Unauthorized''\<rparr>
      | Some token \<Rightarrow>
          if token = [] then Respond \<lparr>http_status = 401, body = Error ''Unauthorized''\<rparr>
          else if token \<in> set (invalidatedTokens s)
          then Respond \<lparr>http_status = 401, body = Error ''Token has been invalidated''\<rparr>
          else (case jwt_verify L token secretKey now of
                  Inl err \<Rightarrow> Respond \<lparr>http_status = 403, body = Error ''Forbidden''\<rparr>
                | Inr usr \<Rightarrow> Next usr))"

subsection \<open>Regular expressions of the search filter\<close>

text \<open>
  \<^verbatim>\<open>{ $regex: p, $options: "i" }\<close> searches the pattern anywhere in the field, ignoring
  case. Patterns made of ordinary characters and the dot are matched here, the dot standing
  for any character but the line feed, and case folded for the letters \<^verbatim>\<open>A\<close> to \<^verbatim>\<open>Z\<close>.
  For every other pattern the engine is the parameter \<open>pcre\<close>, which gives no matcher for a
  pattern that does not compile.
\<close>

definition meta_chars :: "char list" where
  "meta_chars = [CHR 0x5C, CHR ''^'', CHR ''$'', CHR ''.'', CHR ''['', CHR '']'', CHR ''|'',
                 CHR ''('', CHR '')'', CHR ''?'', CHR ''*'', CHR ''+'', CHR ''{'', CHR ''}'']"

definition plain :: "string \<Rightarrow> bool" where
  "plain p = list_all (\<lambda>c. c \<notin> set meta_chars) p"

definition toLower :: "char \<Rightarrow> char" where
  "toLower c = (let n = (of_char c :: nat) in if 65 \<le> n \<and> n \<le> 90 then char_of (n + 32) else c)"

definition rx_char :: "char \<Rightarrow> char \<Rightarrow> bool" where
  "rx_char p c = (if p = CHR ''.'' then c \<noteq> CHR 0x0A else toLower p = toLower c)"

fun rx_prefix :: "string \<Rightarrow> string \<Rightarrow> bool" where
  "rx_prefix [] s = True"
| "rx_prefix (p # ps) [] = False"
| "rx_prefix (p # ps) (c # cs) = (rx_char p c \<and> rx_prefix ps cs)"

fun rx_search :: "string \<Rightarrow> string \<Rightarrow> bool" where
  "rx_search p [] = rx_prefix p []"
| "rx_search p (c # cs) = (rx_prefix p (c # cs) \<or> rx_search p cs)"

definition regex_i :: "lib \<Rightarrow> string \<Rightarrow> (string \<Rightarrow> bool) option" where
  "regex_i L p =
     (if list_all (\<lambda>c. c \<notin> set meta_chars \<or> c = CHR ''.'') p then Some (rx_search p)
      else pcre L p)"

subsection \<open>Conditions on a string field\<close>

text \<open>
  What a filter value means for a field of type String. A string asks for equality; the
  object \<^verbatim>\<open>{ "$ne": s }\<close> asks for a value other than \<open>s\<close>. Every other value (another
  operator, a number, an array, ...) is read by the parameter \<open>query_op\<close>, which gives no
  condition for a value that the query refuses.
\<close>

fun ne_operand :: "json \<Rightarrow> string option" where
  "ne_operand (JObj [(k, JStr s)]) = (if k = ''$ne'' then Some s else None)"
| "ne_operand v = None"

definition string_term :: "lib \<Rightarrow> json \<Rightarrow> db_error + (string \<Rightarrow> bool)" where
  "string_term L v =
     (case v of
        JStr s \<Rightarrow> Inr (\<lambda>x. x = s)
      | _ \<Rightarrow>
          (case ne_operand v of
             Some s \<Rightarrow> Inr (\<lambda>x. x \<noteq> s)
           | None \<Rightarrow>
               (case query_op L v of
                  None \<Rightarrow> Inl CastError
                | Some m \<Rightarrow> Inr m)))"

subsection \<open>The Todo collection\<close>

text \<open>
  A query filter is an object with optional keys. \<open>f_id\<close> holds the route parameter as it
  came, a string that the query casts to an ObjectId; \<open>f_title\<close> and \<open>f_description\<close> hold
  the value \<open>p\<close> of a \<^verbatim>\<open>{ $regex: p, $options: "i" }\<close> term; \<open>f_status\<close> holds the value
  given for \<open>status\<close>, whatever it is.
\<close>

record todo_filter =
  f_id :: "string option"
  f_userId :: "oid option"
  f_title :: "json option"
  f_description :: "json option"
  f_status :: "json option"

definition no_filter :: todo_filter where
  "no_filter = \<lparr>f_id = None, f_userId = None, f_title = None, f_description = None,
                f_status = None\<rparr>"

definition cast_id :: "lib \<Rightarrow> string option \<Rightarrow> db_error + (oid \<Rightarrow> bool)" where
  "cast_id L v =
     (case v of
        None \<Rightarrow> Inr (\<lambda>x. True)
      | Some s \<Rightarrow> (case castObjectId L s of
                    None \<Rightarrow> Inl CastError
                  | Some i \<Rightarrow> Inr (\<lambda>x. x = i)))"

definition compile_regex :: "lib \<Rightarrow> json option \<Rightarrow> db_error + (string \<Rightarrow> bool)" where
  "compile_regex L v =
     (case v of
        None \<Rightarrow> Inr (\<lambda>x. True)
      | Some (JStr p) \<Rightarrow> (case regex_i L p of
                           None \<Rightarrow> Inl RegexError
                         | Some m \<Rightarrow> Inr m)
      | Some w \<Rightarrow> (case query_op L (JObj [(''$regex'', w), (''$options'', JStr ''i'')]) of
                    None \<Rightarrow> Inl CastError
                  | Some m \<Rightarrow> Inr m))"

definition compile_status :: "lib \<Rightarrow> json option \<Rightarrow> db_error + (string \<Rightarrow> bool)" where
  "compile_status L v = (case v of None \<Rightarrow> Inr (\<lambda>x. True) | Some w \<Rightarrow> string_term L w)"

definition holds :: "'a option \<Rightarrow> 'a \<Rightarrow> bool" where
  "holds v x = (case v of None \<Rightarrow> True | Some y \<Rightarrow> x = y)"

text \<open>The documents a filter selects: all present terms must hold.\<close>

definition compile_filter :: "lib \<Rightarrow> todo_filter \<Rightarrow> db_error + (todo \<Rightarrow> bool)" where
  "compile_filter L f =
     (case cast_id L (f_id f) of
        Inl e \<Rightarrow> Inl e
      | Inr pid \<Rightarrow>
          (case compile_regex L (f_title f) of
             Inl e \<Rightarrow> Inl e
           | Inr pt \<Rightarrow>
               (case compile_regex L (f_description f) of
                  Inl e \<Rightarrow> Inl e
                | Inr pd \<Rightarrow>
                    (case compile_status L (f_status f) of
                       Inl e \<Rightarrow> Inl e
                     | Inr ps \<Rightarrow>
                         Inr (\<lambda>d. pid (todo_id d) \<and> holds (f_userId f) (userId d)
                                   \<and> pt (title d) \<and> pd (description d)
                                   \<and> ps (status d))))))"

definition Todo_find :: "lib \<Rightarrow> todo_filter \<Rightarrow> todo list \<Rightarrow> db_error + todo list" where
  "Todo_find L f docs =
     (case compile_filter L f of Inl e \<Rightarrow> Inl e | Inr P \<Rightarrow> Inr (filter P docs))"

definition Todo_findOne :: "lib \<Rightarrow> todo_filter \<Rightarrow> todo list \<Rightarrow> db_error + todo option" where
  "Todo_findOne L f docs =
     (case compile_filter L f of Inl e \<Rightarrow> Inl e | Inr P \<Rightarrow> Inr (find P docs))"

text \<open>
  The update document \<^verbatim>\<open>{ title, description, status, updatedAt: Date.now() }\<close>. A key whose
  value is \<^verbatim>\<open>undefined\<close> is dropped from the update, so that field keeps its value.
  \<^verbatim>\<open>findOneAndUpdate\<close> is called without \<^verbatim>\<open>runValidators\<close>, so the schema's validators
  are not run on the new values.
\<close>

record todo_update =
  u_title :: "string option"
  u_description :: "string option"
  u_status :: "string option"
  u_updatedAt :: nat

definition or_else :: "'a option \<Rightarrow> 'a \<Rightarrow> 'a" where
  "or_else v x = (case v of None \<Rightarrow> x | Some y \<Rightarrow> y)"

definition apply_update :: "todo_update \<Rightarrow> todo \<Rightarrow> todo" where
  "apply_update u d =
     d\<lparr>title := or_else (u_title u) (title d),
       description := or_else (u_description u) (description d),
       status := or_else (u_status u) (status d),
       updatedAt := u_updatedAt u\<rparr>"

fun update_first :: "('a \<Rightarrow> bool) \<Rightarrow> ('a \<Rightarrow> 'a) \<Rightarrow> 'a list \<Rightarrow> 'a list" where
  "update_first P g [] = []"
| "update_first P g (x # xs) = (if P x then g x # xs else x # update_first P g xs)"

fun remove_first :: "('a \<Rightarrow> bool) \<Rightarrow> 'a list \<Rightarrow> 'a list" where
  "remove_first P [] = []"
| "remove_first P (x # xs) = (if P x then xs else x # remove_first P xs)"

text \<open>With \<^verbatim>\<open>{ new: true }\<close> the document returned is the one after the update.\<close>

definition Todo_findOneAndUpdate ::
  "lib \<Rightarrow> todo_filter \<Rightarrow> todo_update \<Rightarrow> todo list \<Rightarrow> db_error + (todo option \<times> todo list)" where
  "Todo_findOneAndUpdate L f u docs =
     (case compile_filter L f of
        Inl e \<Rightarrow> Inl e
      | Inr P \<Rightarrow> Inr (map_option (apply_update u) (find P docs),
                      update_first P (apply_update u) docs))"

definition Todo_findOneAndDelete ::
  "lib \<Rightarrow> todo_filter \<Rightarrow> todo list \<Rightarrow> db_error + (todo option \<times> todo list)" where
  "Todo_findOneAndDelete L f docs =
     (case compile_filter L f of
        Inl e \<Rightarrow> Inl e
      | Inr P \<Rightarrow> Inr (find P docs, remove_first P docs))"

text \<open>
  \<^verbatim>\<open>Todo.create\<close> runs \<^verbatim>\<open>todoSchema\<close>: \<open>title\<close> and \<open>description\<close> are required (an
  empty string does not count), \<open>status\<close> defaults to \<^verbatim>\<open>"pending"\<close> when it is
  \<^verbatim>\<open>undefined\<close> and must be one of the two enum values, the two dates default to the
  clock. The collection refuses a second document with the same \<^verbatim>\<open>_id\<close>.
\<close>

definition status_enum :: "string list" where
  "status_enum = [''pending'', ''completed'']"

definition Todo_create ::
  "oid \<Rightarrow> nat \<Rightarrow> oid \<Rightarrow> string option \<Rightarrow> string option \<Rightarrow> string option \<Rightarrow> todo list
     \<Rightarrow> db_error + (todo \<times> todo list)" where
  "Todo_create newid now uid ttl descr st docs =
     (let st' = or_else st ''pending'' in
      if \<not> truthy ttl \<or> \<not> truthy descr \<or> st' \<notin> set status_enum then Inl ValidationError
      else if newid \<in> set (map todo_id docs) then Inl DuplicateKeyError
      else
        (let d = \<lparr>todo_id = newid, userId = uid, title = or_else ttl [],
                  description = or_else descr [], status = st', createdAt = now,
                  updatedAt = now\<rparr>
         in Inr (d, docs @ [d])))"

subsection \<open>The User collection\<close>

text \<open>\<^verbatim>\<open>userSchema\<close>: both fields required, \<open>username\<close> unique.\<close>

definition User_create ::
  "oid \<Rightarrow> string option \<Rightarrow> string option \<Rightarrow> user list \<Rightarrow> db_error + (user \<times> user list)" where
  "User_create newid uname pw us =
     (if \<not> truthy uname \<or> \<not> truthy pw then Inl ValidationError
      else if or_else uname [] \<in> set (map username us) \<or> newid \<in> set (map user_id us)
      then Inl DuplicateKeyError
      else
        (let u = \<lparr>user_id = newid, username = or_else uname [], password = or_else pw []\<rparr>
         in Inr (u, us @ [u])))"

text \<open>\<^verbatim>\<open>User.findOne({ username, password })\<close>: the first user for which both conditions
  hold. The two values come from the body as they are, so each is read as a condition on a
  string field. A value that is \<^verbatim>\<open>undefined\<close> equals no stored string.\<close>

definition user_term :: "lib \<Rightarrow> json option \<Rightarrow> db_error + (string \<Rightarrow> bool)" where
  "user_term L v = (case v of None \<Rightarrow> Inr (\<lambda>x. False) | Some w \<Rightarrow> string_term L w)"

definition User_findOne ::
  "lib \<Rightarrow> json option \<Rightarrow> json option \<Rightarrow> user list \<Rightarrow> db_error + user option" where
  "User_findOne L uname pw us =
     (case user_term L uname of
        Inl e \<Rightarrow> Inl e
      | Inr pu \<Rightarrow>
          (case user_term L pw of
             Inl e \<Rightarrow> Inl e
           | Inr pp \<Rightarrow> Inr (find (\<lambda>u. pu (username u) \<and> pp (password u)) us)))"

subsection \<open>Route handlers\<close>

text \<open>\<^verbatim>\<open>GET /todos\<close>: the filter starts as \<^verbatim>\<open>{ userId: req.user.userId }\<close> and gets one
  more key for each of the three query terms that is truthy.\<close>

definition todos_filter :: "jwt_payload \<Rightarrow> jsonobj \<Rightarrow> todo_filter" where
  "todos_filter usr query =
     (let ttl = query ''title''; descr = query ''description''; st = query ''status'';
          filter0 = no_filter\<lparr>f_userId := Some (jwt_userId usr)\<rparr>;
          filter1 = (if truthy_json ttl then filter0\<lparr>f_title := ttl\<rparr> else filter0);
          filter2 = (if truthy_json descr then filter1\<lparr>f_description := descr\<rparr>
                     else filter1)
      in if truthy_json st then filter2\<lparr>f_status := st\<rparr> else filter2)"

definition get_todos :: "lib \<Rightarrow> jwt_payload \<Rightarrow> jsonobj \<Rightarrow> server \<Rightarrow> response" where
  "get_todos L usr query s =
     (case Todo_find L (todos_filter usr query) (todos s) of
        Inl err \<Rightarrow> \<lparr>http_status = 400, body = ErrMessage err\<rparr>
      | Inr ds \<Rightarrow> \<lparr>http_status = 200, body = TodoDocs ds\<rparr>)"

text \<open>\<^verbatim>\<open>POST /signup\<close>\<close>

definition post_signup :: "oid \<Rightarrow> jsobj \<Rightarrow> server \<Rightarrow> response \<times> server" where
  "post_signup newid b s =
     (case User_create newid (b ''username'') (b ''password'') (users s) of
        Inl err \<Rightarrow> (\<lparr>http_status = 400, body = ErrMessage err\<rparr>, s)
      | Inr (newUser, us) \<Rightarrow>
          (\<lparr>http_status = 201, body = SignupOk ''User created successfully'' newUser\<rparr>,
           s\<lparr>users := us\<rparr>))"

text \<open>\<^verbatim>\<open>POST /login\<close>\<close>

definition post_login :: "lib \<Rightarrow> nat \<Rightarrow> jsonobj \<Rightarrow> server \<Rightarrow> response" where
  "post_login L now b s =
     (case User_findOne L (b ''username'') (b ''password'') (users s) of
        Inl err \<Rightarrow> \<lparr>http_status = 400, body = ErrMessage err\<rparr>
      | Inr None \<Rightarrow> \<lparr>http_status = 401, body = Error ''Invalid credentials''\<rparr>
      | Inr (Some u) \<Rightarrow>
          \<lparr>http_status = 200,
           body = LoginOk ''Login successful'' (jwt_sign L (user_id u) secretKey ''1h'' now)\<rparr>)"

text \<open>
  \<^verbatim>\<open>POST /logout\<close>, behind the gate: the token is taken from the header again and pushed.
  The gate has let the request through, so the header has a token; in the other case (which
  no request reaches) the pushed value is \<^verbatim>\<open>undefined\<close>, equal to no string, and the list
  of strings is left as it is.
\<close>

definition post_logout :: "string option \<Rightarrow> server \<Rightarrow> response \<times> server" where
  "post_logout authHeader s =
     (\<lparr>http_status = 200, body = Message ''Logout successful''\<rparr>,
      (case token_of authHeader of
         None \<Rightarrow> s
       | Some token \<Rightarrow> s\<lparr>invalidatedTokens := invalidatedTokens s @ [token]\<rparr>))"

text \<open>\<^verbatim>\<open>POST /todos\<close>\<close>

definition post_todos :: "oid \<Rightarrow> nat \<Rightarrow> jwt_payload \<Rightarrow> jsobj \<Rightarrow> server \<Rightarrow> response \<times> server" where
  "post_todos newid now usr b s =
     (let ttl = b ''title''; descr = b ''description''; st = b ''status'' in
      if \<not> truthy ttl \<or> \<not> truthy descr
      then (\<lparr>http_status = 400, body = Error ''Title and description are required''\<rparr>, s)
      else if truthy st \<and> or_else st [] \<notin> set [''pending'', ''completed'']
      then (\<lparr>http_status = 400, body = Error ''Invalid status''\<rparr>, s)
      else
        (case Todo_create newid now (jwt_userId usr) ttl descr st (todos s) of
           Inl err \<Rightarrow> (\<lparr>http_status = 400, body = ErrMessage err\<rparr>, s)
         | Inr (d, docs) \<Rightarrow> (\<lparr>http_status = 201, body = TodoDoc d\<rparr>, s\<lparr>todos := docs\<rparr>)))"

text \<open>The filter \<^verbatim>\<open>{ _id: id, userId: req.user.userId }\<close> of the three routes on one todo.\<close>

definition own_filter :: "jwt_payload \<Rightarrow> string \<Rightarrow> todo_filter" where
  "own_filter usr ident = no_filter\<lparr>f_id := Some ident, f_userId := Some (jwt_userId usr)\<rparr>"

text \<open>\<^verbatim>\<open>GET /todos/:id\<close>\<close>

definition get_todo :: "lib \<Rightarrow> jwt_payload \<Rightarrow> string \<Rightarrow> server \<Rightarrow> response" where
  "get_todo L usr ident s =
     (case Todo_findOne L (own_filter usr ident) (todos s) of
        Inl err \<Rightarrow> \<lparr>http_status = 400, body = ErrMessage err\<rparr>
      | Inr None \<Rightarrow> \<lparr>http_status = 404, body = Error ''Todo not found''\<rparr>
      | Inr (Some d) \<Rightarrow> \<lparr>http_status = 200, body = TodoDoc d\<rparr>)"

text \<open>\<^verbatim>\<open>PUT /todos/:id\<close>\<close>

definition put_todo ::
  "lib \<Rightarrow> nat \<Rightarrow> jwt_payload \<Rightarrow> string \<Rightarrow> jsobj \<Rightarrow> server \<Rightarrow> response \<times> server" where
  "put_todo L now usr ident b s =
     (let ttl = b ''title''; descr = b ''description''; st = b ''status'' in
      case Todo_findOneAndUpdate L (own_filter usr ident)
             \<lparr>u_title = ttl, u_description = descr, u_status = st, u_updatedAt = now\<rparr>
             (todos s) of
        Inl err \<Rightarrow> (\<lparr>http_status = 400, body = ErrMessage err\<rparr>, s)
      | Inr (None, docs) \<Rightarrow>
          (\<lparr>http_status = 404, body = Error ''Todo not found''\<rparr>, s\<lparr>todos := docs\<rparr>)
      | Inr (Some updatedTodo, docs) \<Rightarrow>
          (\<lparr>http_status = 200, body = TodoDoc updatedTodo\<rparr>, s\<lparr>todos := docs\<rparr>))"

text \<open>\<^verbatim>\<open>DELETE /todos/:id\<close>\<close>

definition delete_todo :: "lib \<Rightarrow> jwt_payload \<Rightarrow> string \<Rightarrow> server \<Rightarrow> response \<times> server" where
  "delete_todo L usr ident s =
     (case Todo_findOneAndDelete L (own_filter usr ident) (todos s) of
        Inl err \<Rightarrow> (\<lparr>http_status = 400, body = ErrMessage err\<rparr>, s)
      | Inr (None, docs) \<Rightarrow>
          (\<lparr>http_status = 404, body = Error ''Todo not found''\<rparr>, s\<lparr>todos := docs\<rparr>)
      | Inr (Some deletedTodo, docs) \<Rightarrow>
          (\<lparr>http_status = 200, body = Message ''Todo deleted successfully''\<rparr>,
           s\<lparr>todos := docs\<rparr>))"

subsection \<open>Requests and the server as a state machine\<close>

datatype route =
    GET_todos jsonobj
  | POST_signup jsobj
  | POST_login jsonobj
  | POST_logout
  | POST_todos jsobj
  | GET_todo string
  | PUT_todo string jsobj
  | DELETE_todo string

text \<open>A request with the clock and the fresh identifier at the moment it is served.\<close>

record request =
  now :: nat
  newid :: oid
  authorization :: "string option"
  route :: route

text \<open>A route registered with \<open>authenticateToken\<close> runs its handler only after \<^verbatim>\<open>next()\<close>.\<close>

definition gated ::
  "lib \<Rightarrow> request \<Rightarrow> server \<Rightarrow> (jwt_payload \<Rightarrow> response \<times> server) \<Rightarrow> response \<times> server" where
  "gated L r s handler =
     (case authenticateToken L s (now r) (authorization r) of
        Respond res \<Rightarrow> (res, s)
      | Next usr \<Rightarrow> handler usr)"

definition handle :: "lib \<Rightarrow> request \<Rightarrow> server \<Rightarrow> response \<times> server" where
  "handle L r s =
     (case route r of
        GET_todos query \<Rightarrow> gated L r s (\<lambda>usr. (get_todos L usr query s, s))
      | POST_signup b \<Rightarrow> post_signup (newid r) b s
      | POST_login b \<Rightarrow> (post_login L (now r) b s, s)
      | POST_logout \<Rightarrow> gated L r s (\<lambda>usr. post_logout (authorization r) s)
      | POST_todos b \<Rightarrow> gated L r s (\<lambda>usr. post_todos (newid r) (now r) usr b s)
      | GET_todo ident \<Rightarrow> gated L r s (\<lambda>usr. (get_todo L usr ident s, s))
      | PUT_todo ident b \<Rightarrow> gated L r s (\<lambda>usr. put_todo L (now r) usr ident b s)
      | DELETE_todo ident \<Rightarrow> gated L r s (\<lambda>usr. delete_todo L usr ident s))"

text \<open>Serving a sequence of requests: the responses in order and the final state.\<close>

fun run :: "lib \<Rightarrow> request list \<Rightarrow> server \<Rightarrow> response list \<times> server" where
  "run L [] s = ([], s)"
| "run L (r # rs) s =
     (case handle L r s of
        (res, s') \<Rightarrow> (case run L rs s' of (ress, s'') \<Rightarrow> (res # ress, s'')))"

subsection \<open>The token service of the specification\<close>

text \<open>
  Modelled from the spec: the token format and the two operations \<^verbatim>\<open>jwt.sign\<close> and
  \<^verbatim>\<open>jwt.verify\<close> of the library \<^verbatim>\<open>jsonwebtoken\<close>, which the program calls and which is
  not among its sources. The spec describes a token as an opaque string that encodes
  \<^verbatim>\<open>{principalId, issuedAt, expiresAt}\<close> and a signature over that payload under the
  signing secret. Here the three numbers are written in decimal and separated by dots, and
  the signature, the value of an arbitrary keyed function \<open>mac\<close> on the payload text, follows
  in hexadecimal.
\<close>

definition digit_char :: "nat \<Rightarrow> char" where
  "digit_char d = char_of (48 + d)"

function dec :: "nat \<Rightarrow> string" where
  "dec n = (if n < 10 then [digit_char n] else dec (n div 10) @ [digit_char (n mod 10)])"
  by pat_completeness auto
termination
  by (relation "measure id") auto

declare dec.simps [simp del]

definition digit_val :: "char \<Rightarrow> nat option" where
  "digit_val c = (let n = (of_char c :: nat) in if 48 \<le> n \<and> n \<le> 57 then Some (n - 48) else None)"

fun undec_acc :: "nat \<Rightarrow> string \<Rightarrow> nat option" where
  "undec_acc a [] = Some a"
| "undec_acc a (c # cs) =
     (case digit_val c of None \<Rightarrow> None | Some d \<Rightarrow> undec_acc (10 * a + d) cs)"

definition undec :: "string \<Rightarrow> nat option" where
  "undec s = (if s = [] then None else undec_acc 0 s)"

definition hex_digit :: "nat \<Rightarrow> char" where
  "hex_digit d = ''0123456789abcdef'' ! (d mod 16)"

definition hex :: "string \<Rightarrow> string" where
  "hex s = concat (map (\<lambda>c. [hex_digit (of_char c div 16), hex_digit (of_char c)]) s)"

fun split_dot :: "string \<Rightarrow> string list" where
  "split_dot [] = [[]]"
| "split_dot (c # cs) =
     (if c = CHR ''.'' then [] # split_dot cs
      else (case split_dot cs of [] \<Rightarrow> [[c]] | w # ws \<Rightarrow> (c # w) # ws))"

definition payload_text :: "string \<Rightarrow> string \<Rightarrow> string \<Rightarrow> string" where
  "payload_text a b c = a @ ''.'' @ b @ ''.'' @ c"

text \<open>
  Modelled from the spec: the validity window of a token, one hour (the program passes
  \<^verbatim>\<open>expiresIn: "1h"\<close>), in the unit of the clock \<^verbatim>\<open>Date.now()\<close>, milliseconds.
\<close>

definition token_window :: nat where
  "token_window = 3600000"

text \<open>
  Modelled from the spec: \<^verbatim>\<open>issue(principalId)\<close> builds a signed token embedding
  \<^verbatim>\<open>principalId\<close>, \<^verbatim>\<open>issuedAt = now\<close> and \<^verbatim>\<open>expiresAt = now + fixed window\<close>. It stands
  for \<^verbatim>\<open>jwt.sign\<close>, which is not among the sources; the window is fixed, so the argument
  \<open>expiresIn\<close> is not read.
\<close>

definition spec_sign ::
  "(string \<Rightarrow> string \<Rightarrow> string) \<Rightarrow> oid \<Rightarrow> string \<Rightarrow> string \<Rightarrow> nat \<Rightarrow> string" where
  "spec_sign mac uid key expiresIn t =
     (let p = payload_text (dec uid) (dec t) (dec (t + token_window))
      in p @ ''.'' @ hex (mac key p))"

text \<open>
  Modelled from the spec: \<^verbatim>\<open>verify(tokenString)\<close> fails with \<^verbatim>\<open>Malformed\<close> if the string
  cannot be decoded, with \<^verbatim>\<open>SignatureInvalid\<close> if the signature does not match, with
  \<^verbatim>\<open>Expired\<close> if \<^verbatim>\<open>now > expiresAt\<close>, and otherwise returns the principal. It stands for
  \<^verbatim>\<open>jwt.verify\<close>, which is not among the sources. The test of the revocation set is not
  here: the program makes it in \<open>authenticateToken\<close>, before this call.
\<close>

definition spec_verify ::
  "(string \<Rightarrow> string \<Rightarrow> string) \<Rightarrow> string \<Rightarrow> string \<Rightarrow> nat \<Rightarrow> jwt_error + jwt_payload" where
  "spec_verify mac tok key t =
     (case split_dot tok of
        [a, b, c, sg] \<Rightarrow>
          (case undec a of
             None \<Rightarrow> Inl JwtMalformed
           | Some uid \<Rightarrow>
               (case undec b of
                  None \<Rightarrow> Inl JwtMalformed
                | Some i \<Rightarrow>
                    (case undec c of
                       None \<Rightarrow> Inl JwtMalformed
                     | Some e \<Rightarrow>
                         if sg \<noteq> hex (mac key (payload_text a b c)) then Inl InvalidSignature
                         else if e < t then Inl TokenExpired
                         else Inr \<lparr>jwt_userId = uid, iat = i, exp = e\<rparr>)))
      | _ \<Rightarrow> Inl JwtMalformed)"

text \<open>A library whose token operations are those of the specification.\<close>

definition with_spec_jwt :: "(string \<Rightarrow> string \<Rightarrow> string) \<Rightarrow> lib \<Rightarrow> lib" where
  "with_spec_jwt mac L = L\<lparr>jwt_sign := spec_sign mac, jwt_verify := spec_verify mac\<rparr>"

subsection \<open>An instance of the libraries and a small state, for concrete runs\<close>

text \<open>
  A token of this instance is \<^verbatim>\<open>tok\<close> followed by as many \<^verbatim>\<open>u\<close> as the user's identifier;
  it verifies under the server's key until the clock reaches one hour. An ObjectId is written
  as a run of the digit \<^verbatim>\<open>1\<close>. Patterns outside the matched fragment do not compile, and
  conditions other than a string and \<^verbatim>\<open>$ne\<close> are refused.
\<close>

definition demo_verify :: "string \<Rightarrow> string \<Rightarrow> nat \<Rightarrow> jwt_error + jwt_payload" where
  "demo_verify tok key t =
     (case tok of
        a # b # c # rest \<Rightarrow>
          if [a, b, c] \<noteq> ''tok'' \<or> \<not> list_all (\<lambda>x. x = CHR ''u'') rest then Inl JwtMalformed
          else if key \<noteq> ''Hello123'' then Inl InvalidSignature
          else if 3600000 \<le> t then Inl TokenExpired
          else Inr \<lparr>jwt_userId = length rest, iat = 0, exp = 3600\<rparr>
      | _ \<Rightarrow> Inl JwtMalformed)"

definition demo_lib :: lib where
  "demo_lib =
     \<lparr>jwt_sign = (\<lambda>uid key expiresIn t. ''tok'' @ replicate uid (CHR ''u'')),
      jwt_verify = demo_verify,
      castObjectId =
        (\<lambda>s. if s \<noteq> [] \<and> list_all (\<lambda>x. x = CHR ''1'') s then Some (length s) else None),
      pcre = (\<lambda>p. None),
      query_op = (\<lambda>v. None)\<rparr>"

definition demo_todo :: todo where
  "demo_todo = \<lparr>todo_id = 1, userId = 2, title = ''a'', description = ''b'',
                status = ''pending'', createdAt = 0, updatedAt = 0\<rparr>"

definition demo_server :: server where
  "demo_server =
     \<lparr>invalidatedTokens = [],
      users = [\<lparr>user_id = 2, username = ''alice'', password = ''pw1''\<rparr>],
      todos = [demo_todo]\<rparr>"

definition demo_request :: "string \<Rightarrow> route \<Rightarrow> request" where
  "demo_request tok rt =
     \<lparr>now = 5, newid = 9, authorization = Some (''Bearer '' @ tok), route = rt\<rparr>"

text \<open>The spec's wording of the search: the term occurs in the field, ignoring case.\<close>

definition ci_substring :: "string \<Rightarrow> string \<Rightarrow> bool" where
  "ci_substring t s = sublist (map toLower t) (map toLower s)"

text \<open>The routes registered with the gate: all but signup and login.\<close>

definition is_gated :: "route \<Rightarrow> bool" where
  "is_gated rt = (case rt of POST_signup b \<Rightarrow> False | POST_login b \<Rightarrow> False | _ \<Rightarrow> True)"

text \<open>Two states that differ at most in the order and repetition of revoked tokens.\<close>

definition same_revoked :: "server \<Rightarrow> server \<Rightarrow> bool" where
  "same_revoked s s' \<longleftrightarrow>
     set (invalidatedTokens s) = set (invalidatedTokens s') \<and> users s = users s'
     \<and> todos s = todos s'"

section \<open>Properties\<close>

subsection \<open>The gate\<close>

lemma token_of_Bearer:
  "tok \<noteq> [] \<Longrightarrow> CHR '' '' \<notin> set tok \<Longrightarrow> token_of (Some (''Bearer '' @ tok)) = Some tok"
proof -
  assume ne: "tok \<noteq> []" and sp: "CHR '' '' \<notin> set tok"
  have "split_sp tok = [tok]" using sp
    by (induction tok) auto
  then show ?thesis
    by (simp add: token_of_def at_index_def)
qed

lemma auth_revoked:
  "token_of h = Some t \<Longrightarrow> t \<noteq> [] \<Longrightarrow> t \<in> set (invalidatedTokens s) \<Longrightarrow>
   authenticateToken L s n h
     = Respond \<lparr>http_status = 401, body = Error ''Token has been invalidated''\<rparr>"
  by (simp add: authenticateToken_def)

lemma auth_Next_token:
  "authenticateToken L s n h = Next usr \<Longrightarrow>
   \<exists>t. token_of h = Some t \<and> t \<noteq> [] \<and> t \<notin> set (invalidatedTokens s)
       \<and> jwt_verify L t secretKey n = Inr usr"
  by (auto simp: authenticateToken_def split: option.splits if_splits sum.splits)

lemma gated_reject:
  "authenticateToken L s (now r) (authorization r) = Respond res \<Longrightarrow> is_gated (route r) \<Longrightarrow>
   handle L r s = (res, s)"
  by (auto simp: handle_def gated_def is_gated_def split: route.splits)

subsection \<open>The revocation list only grows\<close>

lemma handle_invalidated_mono:
  "set (invalidatedTokens s) \<subseteq> set (invalidatedTokens (snd (handle L r s)))"
  by (auto simp: handle_def gated_def post_signup_def post_logout_def post_todos_def put_todo_def
      delete_todo_def Let_def
      split: route.splits auth_result.splits sum.splits option.splits prod.splits)

lemma run_invalidated_mono:
  "set (invalidatedTokens s) \<subseteq> set (invalidatedTokens (snd (run L rs s)))"
proof (induction rs arbitrary: s)
  case Nil
  show ?case by simp
next
  case (Cons r rs)
  obtain res s' where h: "handle L r s = (res, s')" by (cases "handle L r s")
  have "set (invalidatedTokens s) \<subseteq> set (invalidatedTokens s')"
    using handle_invalidated_mono [of s L r] h by simp
  moreover have "set (invalidatedTokens s') \<subseteq> set (invalidatedTokens (snd (run L rs s')))"
    by (rule Cons.IH)
  ultimately show ?case using h by (cases "run L rs s'") auto
qed

lemma logout_ok_revokes:
  assumes "route r = POST_logout" and "handle L r s = (res, s')" and "http_status res = 200"
  shows "\<exists>t. token_of (authorization r) = Some t \<and> t \<noteq> [] \<and> t \<in> set (invalidatedTokens s')"
  using assms
  by (auto simp: handle_def gated_def post_logout_def authenticateToken_def
      split: auth_result.splits option.splits if_splits sum.splits)

lemma token_of_demo: "token_of (Some ''Bearer tokuu'') = Some ''tokuu''"
  by (simp add: token_of_def at_index_def)

lemma demo_logout:
  "handle demo_lib (demo_request ''tokuu'' POST_logout) demo_server
     = (\<lparr>http_status = 200, body = Message ''Logout successful''\<rparr>,
        demo_server\<lparr>invalidatedTokens := [''tokuu'']\<rparr>)"
  by (simp add: handle_def gated_def demo_request_def authenticateToken_def token_of_demo
      demo_server_def demo_lib_def demo_verify_def secretKey_def post_logout_def)

text \<open>
  C1. Once a logout with token \<open>t\<close> has been answered with success, then after any further
  requests the gate rejects every request carrying \<open>t\<close> with status 401, whatever
  \<^verbatim>\<open>jwt.verify\<close> would say about the token at that time (the library is arbitrary here), and
  a gated route answers 401 and leaves the state as it is. The list is never shortened, so
  the token does not become valid again.
\<close>

theorem revoked_token_stays_rejected:
  assumes logout: "route r = POST_logout" "handle L r s = (res, s1)" "http_status res = 200"
    and later: "run L rs s1 = (ress, s2)"
    and same: "token_of (authorization r') = token_of (authorization r)"
  shows "authenticateToken L s2 (now r') (authorization r') =
           Respond \<lparr>http_status = 401, body = Error ''Token has been invalidated''\<rparr>
         \<and> (is_gated (route r') \<longrightarrow>
              handle L r' s2
                = (\<lparr>http_status = 401, body = Error ''Token has been invalidated''\<rparr>, s2))"
proof -
  obtain t where t: "token_of (authorization r) = Some t" "t \<noteq> []"
      "t \<in> set (invalidatedTokens s1)"
    using logout_ok_revokes [OF logout] by blast
  have "t \<in> set (invalidatedTokens s2)"
    using run_invalidated_mono [of s1 L rs] later t(3) by auto
  then have a: "authenticateToken L s2 (now r') (authorization r') =
           Respond \<lparr>http_status = 401, body = Error ''Token has been invalidated''\<rparr>"
    using t same by (simp add: auth_revoked)
  show ?thesis using a gated_reject [OF a] by simp
qed

theorem revoked_token_stays_rejected_witness:
  "handle demo_lib (demo_request ''tokuu'' POST_logout) demo_server
     = (\<lparr>http_status = 200, body = Message ''Logout successful''\<rparr>,
        demo_server\<lparr>invalidatedTokens := [''tokuu'']\<rparr>)
   \<and> is_gated (GET_todo ''1'')
   \<and> handle demo_lib (demo_request ''tokuu'' (GET_todo ''1''))
        (snd (run demo_lib [demo_request ''tokuu'' (GET_todo ''1'')]
               (demo_server\<lparr>invalidatedTokens := [''tokuu'']\<rparr>)))
     = (\<lparr>http_status = 401, body = Error ''Token has been invalidated''\<rparr>,
        snd (run demo_lib [demo_request ''tokuu'' (GET_todo ''1'')]
               (demo_server\<lparr>invalidatedTokens := [''tokuu'']\<rparr>)))"
proof -
  let ?r = "demo_request ''tokuu'' POST_logout"
  let ?r' = "demo_request ''tokuu'' (GET_todo ''1'')"
  let ?s1 = "demo_server\<lparr>invalidatedTokens := [''tokuu'']\<rparr>"
  have r: "route ?r = POST_logout" by (simp add: demo_request_def)
  have g: "is_gated (route ?r')" by (simp add: demo_request_def is_gated_def)
  obtain ress s2 where run: "run demo_lib [?r'] ?s1 = (ress, s2)"
    by (cases "run demo_lib [?r'] ?s1")
  have "handle demo_lib ?r' s2
          = (\<lparr>http_status = 401, body = Error ''Token has been invalidated''\<rparr>, s2)"
    using revoked_token_stays_rejected [OF r demo_logout _ run, of ?r'] g
    by (simp add: demo_request_def)
  then show ?thesis using demo_logout run g by (simp add: demo_request_def)
qed

subsection \<open>Status codes of the gate\<close>

lemma demo_verify_cases:
  "demo_verify ''abc'' secretKey 5 = Inl JwtMalformed"
  "demo_verify ''tokuu'' ''other'' 5 = Inl InvalidSignature"
  "demo_verify ''tokuu'' secretKey 3600000 = Inl TokenExpired"
  by (simp_all add: demo_verify_def secretKey_def)

text \<open>
  C2. A request without a token (no header, an empty header, or no second piece after the
  split) and a request whose token is in \<open>invalidatedTokens\<close> are both answered with
  status 401. A token that is present and not revoked and that \<^verbatim>\<open>jwt.verify\<close> refuses,
  for whatever reason (malformed, wrong signature, expired), is answered with status 403.
  The gate gives no other status.
\<close>

theorem auth_error_status_mapping:
  "(token_of h = None \<or> token_of h = Some [] \<longrightarrow>
      authenticateToken L s n h = Respond \<lparr>http_status = 401, body = Error ''Unauthorized''\<rparr>)
   \<and> (token_of h = Some t \<and> t \<noteq> [] \<and> t \<in> set (invalidatedTokens s) \<longrightarrow>
      authenticateToken L s n h
        = Respond \<lparr>http_status = 401, body = Error ''Token has been invalidated''\<rparr>)
   \<and> (token_of h = Some t \<and> t \<noteq> [] \<and> t \<notin> set (invalidatedTokens s)
        \<and> jwt_verify L t secretKey n = Inl e \<longrightarrow>
      authenticateToken L s n h = Respond \<lparr>http_status = 403, body = Error ''Forbidden''\<rparr>)
   \<and> (\<forall>res. authenticateToken L s n h = Respond res \<longrightarrow>
        http_status res = 401 \<or> http_status res = 403)"
  by (auto simp: authenticateToken_def split: option.splits sum.splits)

theorem auth_error_status_mapping_witness:
  "authenticateToken demo_lib demo_server 5 None
     = Respond \<lparr>http_status = 401, body = Error ''Unauthorized''\<rparr>
   \<and> authenticateToken demo_lib (demo_server\<lparr>invalidatedTokens := [''tokuu'']\<rparr>) 5
        (Some ''Bearer tokuu'')
     = Respond \<lparr>http_status = 401, body = Error ''Token has been invalidated''\<rparr>
   \<and> authenticateToken demo_lib demo_server 5 (Some ''Bearer abc'')
     = Respond \<lparr>http_status = 403, body = Error ''Forbidden''\<rparr>
   \<and> authenticateToken demo_lib demo_server 3600000 (Some ''Bearer tokuu'')
     = Respond \<lparr>http_status = 403, body = Error ''Forbidden''\<rparr>"
proof -
  have t0: "token_of None = None" by (simp add: token_of_def)
  have t2: "token_of (Some ''Bearer abc'') = Some ''abc''"
    by (simp add: token_of_def at_index_def)
  have v1: "jwt_verify demo_lib ''abc'' secretKey 5 = Inl JwtMalformed"
    by (simp add: demo_lib_def demo_verify_cases)
  have v2: "jwt_verify demo_lib ''tokuu'' secretKey 3600000 = Inl TokenExpired"
    by (simp add: demo_lib_def demo_verify_cases)
  have a: "authenticateToken demo_lib demo_server 5 None
     = Respond \<lparr>http_status = 401, body = Error ''Unauthorized''\<rparr>"
    using auth_error_status_mapping [where h = None and L = demo_lib and s = demo_server and n = 5] t0 by simp
  have b: "authenticateToken demo_lib (demo_server\<lparr>invalidatedTokens := [''tokuu'']\<rparr>) 5
        (Some ''Bearer tokuu'')
     = Respond \<lparr>http_status = 401, body = Error ''Token has been invalidated''\<rparr>"
    using auth_error_status_mapping [where h = "Some ''Bearer tokuu''" and t = "''tokuu''"
        and L = demo_lib and s = "demo_server\<lparr>invalidatedTokens := [''tokuu'']\<rparr>" and n = 5] token_of_demo by simp
  have c: "authenticateToken demo_lib demo_server 5 (Some ''Bearer abc'')
     = Respond \<lparr>http_status = 403, body = Error ''Forbidden''\<rparr>"
    using auth_error_status_mapping [where h = "Some ''Bearer abc''" and t = "''abc''"
        and L = demo_lib and s = demo_server and n = 5 and e = JwtMalformed] t2 v1 by (simp add: demo_server_def)
  have d: "authenticateToken demo_lib demo_server 3600000 (Some ''Bearer tokuu'')
     = Respond \<lparr>http_status = 403, body = Error ''Forbidden''\<rparr>"
    using auth_error_status_mapping [where h = "Some ''Bearer tokuu''" and t = "''tokuu''"
        and L = demo_lib and s = demo_server and n = 3600000 and e = TokenExpired] token_of_demo v2 by (simp add: demo_server_def)
  show ?thesis using a b c d by simp
qed

subsection \<open>Login followed by the gate\<close>

lemma digit_char_neq:
  "d < 10 \<Longrightarrow> digit_char d \<noteq> CHR ''.'' \<and> digit_char d \<noteq> CHR '' ''"
  by (auto simp: digit_char_def char_of_eq_iff take_bit_eq_mod)

lemma digit_val_digit_char: "d < 10 \<Longrightarrow> digit_val (digit_char d) = Some d"
  by (simp add: digit_val_def digit_char_def Let_def)

lemma dec_chars: "c \<in> set (dec n) \<Longrightarrow> c \<noteq> CHR ''.'' \<and> c \<noteq> CHR '' ''"
proof (induction n rule: dec.induct)
  case (1 n)
  show ?case
  proof (cases "n < 10")
    case True
    from True "1.prems" have "c = digit_char n"
      by (subst (asm) dec.simps) simp
    then show ?thesis using digit_char_neq [OF True] by simp
  next
    case False
    have m: "n mod 10 < 10" by simp
    from False "1.prems" have "c \<in> set (dec (n div 10)) \<or> c = digit_char (n mod 10)"
      by (subst (asm) dec.simps) auto
    then show ?thesis using "1.IH" [OF False] digit_char_neq [OF m] by auto
  qed
qed

lemma dec_nonempty: "dec n \<noteq> []"
  by (subst dec.simps) simp

lemma undec_acc_append:
  "undec_acc a (xs @ ys) = (case undec_acc a xs of None \<Rightarrow> None | Some b \<Rightarrow> undec_acc b ys)"
  by (induction xs arbitrary: a) (auto split: option.splits)

lemma undec_acc_dec: "undec_acc a (dec n) = Some (a * 10 ^ length (dec n) + n)"
proof (induction n arbitrary: a rule: dec.induct)
  case (1 n)
  show ?case
  proof (cases "n < 10")
    case True
    then show ?thesis by (subst dec.simps, subst (2) dec.simps) (simp add: digit_val_digit_char)
  next
    case False
    have m: "n mod 10 < 10" by simp
    have d: "dec n = dec (n div 10) @ [digit_char (n mod 10)]"
      using False by (subst dec.simps) simp
    show ?thesis
      unfolding d
      by (simp add: undec_acc_append "1.IH" [OF False] digit_val_digit_char [OF m] algebra_simps)
  qed
qed

lemma undec_dec: "undec (dec n) = Some n"
  using undec_acc_dec [of 0 n] by (simp add: undec_def dec_nonempty)

lemma hex_digit_neq: "hex_digit d \<noteq> CHR ''.'' \<and> hex_digit d \<noteq> CHR '' ''"
proof -
  have "d mod 16 < length ''0123456789abcdef''" by simp
  then have "hex_digit d \<in> set ''0123456789abcdef''"
    unfolding hex_digit_def by (rule nth_mem)
  then show ?thesis by auto
qed

lemma hex_chars: "c \<in> set (hex s) \<Longrightarrow> c \<noteq> CHR ''.'' \<and> c \<noteq> CHR '' ''"
  using hex_digit_neq by (auto simp: hex_def)

lemma split_dot_none: "CHR ''.'' \<notin> set a \<Longrightarrow> split_dot a = [a]"
  by (induction a) auto

lemma split_dot_append:
  "CHR ''.'' \<notin> set a \<Longrightarrow> split_dot (a @ CHR ''.'' # rest) = a # split_dot rest"
  by (induction a) auto

lemma split_dot_token:
  assumes "CHR ''.'' \<notin> set a" "CHR ''.'' \<notin> set b" "CHR ''.'' \<notin> set c" "CHR ''.'' \<notin> set sg"
  shows "split_dot (payload_text a b c @ ''.'' @ sg) = [a, b, c, sg]"
  using assms by (simp add: payload_text_def split_dot_append split_dot_none)

lemma spec_sign_no_space: "CHR '' '' \<notin> set (spec_sign mac uid key e t)"
  using dec_chars hex_chars
  by (auto simp: spec_sign_def Let_def payload_text_def)

lemma spec_sign_nonempty: "spec_sign mac uid key e t \<noteq> []"
  by (simp add: spec_sign_def Let_def payload_text_def dec_nonempty)

lemma spec_verify_sign:
  assumes "n \<le> t + token_window"
  shows "spec_verify mac (spec_sign mac uid key e t) key n
           = Inr \<lparr>jwt_userId = uid, iat = t, exp = t + token_window\<rparr>"
proof -
  let ?a = "dec uid" and ?b = "dec t" and ?c = "dec (t + token_window)"
  let ?sg = "hex (mac key (payload_text ?a ?b ?c))"
  have nd: "CHR ''.'' \<notin> set ?a" "CHR ''.'' \<notin> set ?b" "CHR ''.'' \<notin> set ?c" "CHR ''.'' \<notin> set ?sg"
    using dec_chars hex_chars by blast+
  have "split_dot (spec_sign mac uid key e t) = [?a, ?b, ?c, ?sg]"
    using split_dot_token [OF nd] by (simp add: spec_sign_def Let_def)
  then show ?thesis using assms
    by (simp add: spec_verify_def undec_dec)
qed

text \<open>
  C4. Let the token operations be those of the specification, with any keyed signature
  function. A successful login for user \<open>u\<close> answers with the token issued for \<open>u\<close>'s
  identifier under \<open>secretKey\<close> at the time of the request. Presented as
  \<^verbatim>\<open>Bearer <token>\<close> while it is not in the revocation list and the clock has not passed
  the end of its window, the token passes \<open>authenticateToken\<close>, and \<^verbatim>\<open>req.user\<close> carries
  \<open>u\<close>'s identifier: the header split gives the token back, the same key is used on both
  sides, and decoding the payload gives what was encoded.
\<close>

theorem issue_then_verify_roundtrip:
  assumes login: "route r = POST_login b"
      "User_findOne L (b ''username'') (b ''password'') (users s) = Inr (Some u)"
    and lib: "jwt_sign L = spec_sign mac" "jwt_verify L = spec_verify mac"
    and tok: "tok = spec_sign mac (user_id u) secretKey ''1h'' (now r)"
    and fresh: "tok \<notin> set (invalidatedTokens s)"
    and clock: "n \<le> now r + token_window"
  shows "handle L r s = (\<lparr>http_status = 200, body = LoginOk ''Login successful'' tok\<rparr>, s)
         \<and> authenticateToken L s n (Some (''Bearer '' @ tok))
             = Next \<lparr>jwt_userId = user_id u, iat = now r, exp = now r + token_window\<rparr>"
proof -
  have 1: "handle L r s = (\<lparr>http_status = 200, body = LoginOk ''Login successful'' tok\<rparr>, s)"
    using login lib(1) tok by (simp add: handle_def post_login_def)
  have ne: "tok \<noteq> []" and sp: "CHR '' '' \<notin> set tok"
    unfolding tok by (rule spec_sign_nonempty, rule spec_sign_no_space)
  have t: "token_of (Some (''Bearer '' @ tok)) = Some tok"
    using ne sp by (rule token_of_Bearer)
  have v: "jwt_verify L tok secretKey n
             = Inr \<lparr>jwt_userId = user_id u, iat = now r, exp = now r + token_window\<rparr>"
    unfolding tok lib(2) using clock by (rule spec_verify_sign)
  have "authenticateToken L s n (Some (''Bearer '' @ tok))
             = Next \<lparr>jwt_userId = user_id u, iat = now r, exp = now r + token_window\<rparr>"
    using ne fresh by (simp only: authenticateToken_def t) (simp add: v)
  then show ?thesis using 1 by simp
qed

theorem issue_then_verify_roundtrip_witness:
  "handle (with_spec_jwt (\<lambda>k m. k @ m) demo_lib)
     \<lparr>now = 5, newid = 9, authorization = None,
      route = POST_login [''username'' \<mapsto> JStr ''alice'', ''password'' \<mapsto> JStr ''pw1'']\<rparr>
     demo_server
     = (\<lparr>http_status = 200,
         body = LoginOk ''Login successful''
                  (spec_sign (\<lambda>k m. k @ m) 2 secretKey ''1h'' 5)\<rparr>, demo_server)
   \<and> authenticateToken (with_spec_jwt (\<lambda>k m. k @ m) demo_lib) demo_server 6
        (Some (''Bearer '' @ spec_sign (\<lambda>k m. k @ m) 2 secretKey ''1h'' 5))
     = Next \<lparr>jwt_userId = 2, iat = 5, exp = 5 + token_window\<rparr>"
proof -
  let ?mac = "\<lambda>k m :: string. k @ m"
  let ?L = "with_spec_jwt ?mac demo_lib"
  let ?b = "[''username'' \<mapsto> JStr ''alice'', ''password'' \<mapsto> JStr ''pw1'']"
  let ?r = "\<lparr>now = 5, newid = 9, authorization = None, route = POST_login ?b\<rparr>"
  let ?u = "\<lparr>user_id = 2, username = ''alice'', password = ''pw1''\<rparr>"
  have rt: "route ?r = POST_login ?b" by simp
  have f: "User_findOne ?L (?b ''username'') (?b ''password'') (users demo_server)
             = Inr (Some ?u)"
    by (simp add: User_findOne_def user_term_def string_term_def demo_server_def)
  have l1: "jwt_sign ?L = spec_sign ?mac" and l2: "jwt_verify ?L = spec_verify ?mac"
    by (simp_all add: with_spec_jwt_def)
  have t: "spec_sign ?mac 2 secretKey ''1h'' 5 = spec_sign ?mac (user_id ?u) secretKey ''1h'' (now ?r)"
    by simp
  have i: "spec_sign ?mac 2 secretKey ''1h'' 5 \<notin> set (invalidatedTokens demo_server)"
    by (simp add: demo_server_def)
  have c: "(6::nat) \<le> now ?r + token_window" by (simp add: token_window_def)
  from issue_then_verify_roundtrip [OF rt f l1 l2 t i c] show ?thesis by simp
qed

subsection \<open>The filter of the list route\<close>

text \<open>
  C5. For every payload and every query object, also one with keys \<^verbatim>\<open>userId\<close> or
  \<^verbatim>\<open>ownerId\<close>, the filter that \<^verbatim>\<open>GET /todos\<close> passes to \<^verbatim>\<open>Todo.find\<close> has the term
  \<^verbatim>\<open>userId\<close> equal to \<^verbatim>\<open>req.user.userId\<close>; the response is built from the result of
  that query, and every document in it belongs to that user.
\<close>

theorem list_filter_keeps_owner:
  "f_userId (todos_filter usr query) = Some (jwt_userId usr)
   \<and> get_todos L usr query s
       = (case Todo_find L (todos_filter usr query) (todos s) of
            Inl err \<Rightarrow> \<lparr>http_status = 400, body = ErrMessage err\<rparr>
          | Inr ds \<Rightarrow> \<lparr>http_status = 200, body = TodoDocs ds\<rparr>)
   \<and> (\<forall>ds. body (get_todos L usr query s) = TodoDocs ds \<longrightarrow>
         (\<forall>d \<in> set ds. userId d = jwt_userId usr))"
proof -
  have 1: "f_userId (todos_filter usr query) = Some (jwt_userId usr)"
    by (simp add: todos_filter_def Let_def no_filter_def)
  have 3: "\<forall>ds. body (get_todos L usr query s) = TodoDocs ds \<longrightarrow>
         (\<forall>d \<in> set ds. userId d = jwt_userId usr)"
    using 1 by (auto simp: get_todos_def Todo_find_def compile_filter_def holds_def
        split: sum.splits)
  show ?thesis using 1 3 by (simp add: get_todos_def)
qed

theorem list_filter_keeps_owner_witness:
  "f_userId (todos_filter \<lparr>jwt_userId = 3, iat = 0, exp = 3600\<rparr>
               [''userId'' \<mapsto> JStr ''11'', ''ownerId'' \<mapsto> JStr ''11'',
                ''title'' \<mapsto> JStr ''a'']) = Some 3
   \<and> body (get_todos demo_lib \<lparr>jwt_userId = 2, iat = 0, exp = 3600\<rparr>
              [''userId'' \<mapsto> JStr ''1'', ''title'' \<mapsto> JStr ''a''] demo_server)
       = TodoDocs [demo_todo]
   \<and> userId demo_todo = 2"
proof -
  let ?u = "\<lparr>jwt_userId = 2, iat = 0, exp = 3600\<rparr>"
  let ?q = "[''userId'' \<mapsto> JStr ''1'', ''title'' \<mapsto> JStr ''a'']"
  have b: "body (get_todos demo_lib ?u ?q demo_server) = TodoDocs [demo_todo]"
    by (simp add: get_todos_def todos_filter_def Let_def no_filter_def truthy_json_def
        Todo_find_def compile_filter_def cast_id_def compile_regex_def compile_status_def
        regex_i_def meta_chars_def holds_def demo_server_def demo_todo_def rx_char_def
        toLower_def)
  have "\<forall>d \<in> set [demo_todo]. userId d = jwt_userId ?u"
    using list_filter_keeps_owner [where usr = ?u and query = ?q and L = demo_lib and s = demo_server] b by blast
  moreover have "f_userId (todos_filter \<lparr>jwt_userId = 3, iat = 0, exp = 3600\<rparr>
               [''userId'' \<mapsto> JStr ''11'', ''ownerId'' \<mapsto> JStr ''11'',
                ''title'' \<mapsto> JStr ''a'']) = Some 3"
    using list_filter_keeps_owner [where usr = "\<lparr>jwt_userId = 3, iat = 0, exp = 3600\<rparr>"] by simp
  ultimately show ?thesis using b by simp
qed

subsection \<open>Login failures\<close>





subsection \<open>The default status of a new todo\<close>

lemma post_todos_gate:
  "authenticateToken L s (now r) (authorization r) = Next usr \<Longrightarrow> route r = POST_todos b \<Longrightarrow>
   handle L r s = post_todos (newid r) (now r) usr b s"
  by (simp add: handle_def gated_def)

text \<open>
  C10. An authenticated \<^verbatim>\<open>POST /todos\<close> with a non-empty title and description and no
  \<open>status\<close> key is answered with 201 and stores a document whose status is
  \<^verbatim>\<open>pending\<close>. When a status is given, a document that gets created carries the given
  status, so the default is used only for an absent status.
\<close>

theorem create_without_status_defaults_pending:
  assumes auth: "authenticateToken L s (now r) (authorization r) = Next usr"
    and rt: "route r = POST_todos b"
    and ttl: "b ''title'' = Some t" "t \<noteq> []"
    and descr: "b ''description'' = Some de" "de \<noteq> []"
    and fresh: "newid r \<notin> set (map todo_id (todos s))"
  shows "(b ''status'' = None \<longrightarrow>
            handle L r s =
              (\<lparr>http_status = 201,
                body = TodoDoc \<lparr>todo_id = newid r, userId = jwt_userId usr, title = t,
                  description = de, status = ''pending'', createdAt = now r,
                  updatedAt = now r\<rparr>\<rparr>,
               s\<lparr>todos := todos s @ [\<lparr>todo_id = newid r, userId = jwt_userId usr, title = t,
                  description = de, status = ''pending'', createdAt = now r,
                  updatedAt = now r\<rparr>]\<rparr>))
         \<and> (\<forall>v d s'. b ''status'' = Some v \<longrightarrow>
               handle L r s = (\<lparr>http_status = 201, body = TodoDoc d\<rparr>, s') \<longrightarrow> status d = v)"
proof -
  have h: "handle L r s = post_todos (newid r) (now r) usr b s"
    using auth rt by (rule post_todos_gate)
  have 1: "b ''status'' = None \<longrightarrow>
            handle L r s =
              (\<lparr>http_status = 201,
                body = TodoDoc \<lparr>todo_id = newid r, userId = jwt_userId usr, title = t,
                  description = de, status = ''pending'', createdAt = now r,
                  updatedAt = now r\<rparr>\<rparr>,
               s\<lparr>todos := todos s @ [\<lparr>todo_id = newid r, userId = jwt_userId usr, title = t,
                  description = de, status = ''pending'', createdAt = now r,
                  updatedAt = now r\<rparr>]\<rparr>)"
    using ttl descr fresh
    by (simp add: h post_todos_def Let_def truthy_def Todo_create_def or_else_def status_enum_def)
  have 2: "\<forall>v d s'. b ''status'' = Some v \<longrightarrow>
               handle L r s = (\<lparr>http_status = 201, body = TodoDoc d\<rparr>, s') \<longrightarrow> status d = v"
    using ttl descr
    by (auto simp: h post_todos_def Let_def truthy_def Todo_create_def or_else_def
        split: if_splits)
  show ?thesis using 1 2 by blast
qed

theorem create_without_status_defaults_pending_witness:
  "handle demo_lib (demo_request ''tokuu'' (POST_todos [''title'' \<mapsto> ''t'', ''description'' \<mapsto> ''d'']))
     demo_server
   = (\<lparr>http_status = 201,
       body = TodoDoc \<lparr>todo_id = 9, userId = 2, title = ''t'', description = ''d'',
                status = ''pending'', createdAt = 5, updatedAt = 5\<rparr>\<rparr>,
      demo_server\<lparr>todos := [demo_todo, \<lparr>todo_id = 9, userId = 2, title = ''t'',
                description = ''d'', status = ''pending'', createdAt = 5, updatedAt = 5\<rparr>]\<rparr>)"
proof -
  let ?b = "[''title'' \<mapsto> ''t'', ''description'' \<mapsto> ''d'']"
  let ?r = "demo_request ''tokuu'' (POST_todos ?b)"
  let ?usr = "\<lparr>jwt_userId = 2, iat = 0, exp = 3600\<rparr>"
  have a: "authenticateToken demo_lib demo_server (now ?r) (authorization ?r) = Next ?usr"
    by (simp add: demo_request_def authenticateToken_def token_of_demo demo_server_def
        demo_lib_def demo_verify_def secretKey_def)
  have rt: "route ?r = POST_todos ?b" by (simp add: demo_request_def)
  have f: "newid ?r \<notin> set (map todo_id (todos demo_server))"
    by (simp add: demo_request_def demo_server_def demo_todo_def)
  have st: "?b ''status'' = None" by simp
  have t1: "?b ''title'' = Some ''t''" and t2: "''t'' \<noteq> []" by simp_all
  have d1: "?b ''description'' = Some ''d''" and d2: "''d'' \<noteq> []" by simp_all
  from create_without_status_defaults_pending [OF a rt t1 t2 d1 d2 f] st
  have "handle demo_lib ?r demo_server =
          (\<lparr>http_status = 201,
            body = TodoDoc \<lparr>todo_id = newid ?r, userId = 2, title = ''t'',
              description = ''d'', status = ''pending'', createdAt = now ?r,
              updatedAt = now ?r\<rparr>\<rparr>,
           demo_server\<lparr>todos := todos demo_server @ [\<lparr>todo_id = newid ?r, userId = 2,
              title = ''t'', description = ''d'', status = ''pending'', createdAt = now ?r,
              updatedAt = now ?r\<rparr>]\<rparr>)"
    by simp
  then show ?thesis
    by (simp add: demo_request_def demo_server_def)
qed

subsection \<open>Todos of another user\<close>

lemma update_first_none: "\<forall>x \<in> set xs. \<not> P x \<Longrightarrow> update_first P g xs = xs"
  by (induction xs) auto

lemma remove_first_none: "\<forall>x \<in> set xs. \<not> P x \<Longrightarrow> remove_first P xs = xs"
  by (induction xs) auto

lemma compile_own_filter:
  "castObjectId L ident = Some i \<Longrightarrow>
   compile_filter L (own_filter usr ident)
     = Inr (\<lambda>d. todo_id d = i \<and> userId d = jwt_userId usr \<and> True \<and> True \<and> True)"
  by (simp add: compile_filter_def own_filter_def no_filter_def cast_id_def compile_regex_def
      compile_status_def holds_def)

lemma one_todo_routes_no_match:
  assumes auth: "authenticateToken L s (now r) (authorization r) = Next usr"
    and rt: "route r = GET_todo ident \<or> route r = PUT_todo ident b \<or> route r = DELETE_todo ident"
    and cast: "castObjectId L ident = Some i"
    and none: "\<forall>x \<in> set (todos s). \<not> (todo_id x = i \<and> userId x = jwt_userId usr)"
  shows "handle L r s = (\<lparr>http_status = 404, body = Error ''Todo not found''\<rparr>, s)"
proof -
  let ?P = "\<lambda>d. todo_id d = i \<and> userId d = jwt_userId usr \<and> True \<and> True \<and> True"
  have c: "compile_filter L (own_filter usr ident) = Inr ?P"
    using cast by (rule compile_own_filter)
  have n: "\<forall>x \<in> set (todos s). \<not> ?P x" using none by simp
  have f: "find ?P (todos s) = None" using n by (simp add: find_None_iff)
  have u: "update_first ?P g (todos s) = todos s" for g
    using n by (rule update_first_none)
  have d: "remove_first ?P (todos s) = todos s"
    using n by (rule remove_first_none)
  from rt show ?thesis
  proof (elim disjE)
    assume "route r = GET_todo ident"
    then show ?thesis using auth c f
      by (simp add: handle_def gated_def get_todo_def Todo_findOne_def)
  next
    assume "route r = PUT_todo ident b"
    then show ?thesis using auth c f u
      by (simp add: handle_def gated_def put_todo_def Todo_findOneAndUpdate_def)
  next
    assume "route r = DELETE_todo ident"
    then show ?thesis using auth c f d
      by (simp add: handle_def gated_def delete_todo_def Todo_findOneAndDelete_def)
  qed
qed

lemma auth_todos_irrelevant:
  "authenticateToken L (s\<lparr>todos := ds\<rparr>) n h = authenticateToken L s n h"
  by (auto simp: authenticateToken_def split: option.splits)

lemma demo_auth_uuu:
  "authenticateToken demo_lib demo_server 5 (Some ''Bearer tokuuu'')
     = Next \<lparr>jwt_userId = 3, iat = 0, exp = 3600\<rparr>"
proof -
  have "token_of (Some ''Bearer tokuuu'') = Some ''tokuuu''"
    by (simp add: token_of_def at_index_def)
  then show ?thesis
    by (simp add: authenticateToken_def demo_server_def demo_lib_def demo_verify_def secretKey_def)
qed

text \<open>
  C3. Let \<open>d\<close> be a stored todo whose owner is not the authenticated user, and let the route
  parameter denote \<open>d\<close>'s identifier (identifiers are unique in the collection). Then
  \<^verbatim>\<open>GET\<close>, \<^verbatim>\<open>PUT\<close> and \<^verbatim>\<open>DELETE /todos/:id\<close> answer 404 \<^verbatim>\<open>Todo not found\<close> and leave
  the state, and with it \<open>d\<close>, as it is; the response is the one given when the collection
  holds no todo with that identifier at all.
\<close>

theorem other_owner_todo_is_not_found:
  assumes auth: "authenticateToken L s (now r) (authorization r) = Next usr"
    and rt: "route r = GET_todo ident \<or> route r = PUT_todo ident b \<or> route r = DELETE_todo ident"
    and cast: "castObjectId L ident = Some (todo_id d)"
    and d: "d \<in> set (todos s)" "userId d \<noteq> jwt_userId usr"
    and uniq: "distinct (map todo_id (todos s))"
  shows "handle L r s = (\<lparr>http_status = 404, body = Error ''Todo not found''\<rparr>, s)
         \<and> fst (handle L r (s\<lparr>todos := filter (\<lambda>x. todo_id x \<noteq> todo_id d) (todos s)\<rparr>))
             = \<lparr>http_status = 404, body = Error ''Todo not found''\<rparr>"
proof -
  have "x = d" if "x \<in> set (todos s)" "todo_id x = todo_id d" for x
    using that d(1) uniq by (meson distinct_map inj_on_eq_iff)
  then have none: "\<forall>x \<in> set (todos s). \<not> (todo_id x = todo_id d \<and> userId x = jwt_userId usr)"
    using d(2) by auto
  have 1: "handle L r s = (\<lparr>http_status = 404, body = Error ''Todo not found''\<rparr>, s)"
    using auth rt cast none by (rule one_todo_routes_no_match)
  let ?s' = "s\<lparr>todos := filter (\<lambda>x. todo_id x \<noteq> todo_id d) (todos s)\<rparr>"
  have auth': "authenticateToken L ?s' (now r) (authorization r) = Next usr"
    using auth by (simp add: auth_todos_irrelevant)
  have none': "\<forall>x \<in> set (todos ?s'). \<not> (todo_id x = todo_id d \<and> userId x = jwt_userId usr)"
    by simp
  have "handle L r ?s' = (\<lparr>http_status = 404, body = Error ''Todo not found''\<rparr>, ?s')"
    using auth' rt cast none' by (rule one_todo_routes_no_match)
  then show ?thesis using 1 by simp
qed

theorem other_owner_todo_is_not_found_witness:
  "handle demo_lib (demo_request ''tokuuu'' (GET_todo ''1'')) demo_server
     = (\<lparr>http_status = 404, body = Error ''Todo not found''\<rparr>, demo_server)
   \<and> handle demo_lib (demo_request ''tokuuu'' (PUT_todo ''1'' [''title'' \<mapsto> ''x''])) demo_server
     = (\<lparr>http_status = 404, body = Error ''Todo not found''\<rparr>, demo_server)
   \<and> handle demo_lib (demo_request ''tokuuu'' (DELETE_todo ''1'')) demo_server
     = (\<lparr>http_status = 404, body = Error ''Todo not found''\<rparr>, demo_server)"
proof -
  let ?usr = "\<lparr>jwt_userId = 3, iat = 0, exp = 3600\<rparr>"
  have a: "authenticateToken demo_lib demo_server (now (demo_request ''tokuuu'' rt))
             (authorization (demo_request ''tokuuu'' rt)) = Next ?usr" for rt
    using demo_auth_uuu by (simp add: demo_request_def)
  have c: "castObjectId demo_lib ''1'' = Some (todo_id demo_todo)"
    by (simp add: demo_lib_def demo_todo_def)
  have m: "demo_todo \<in> set (todos demo_server)" by (simp add: demo_server_def)
  have o: "userId demo_todo \<noteq> jwt_userId ?usr" by (simp add: demo_todo_def)
  have u: "distinct (map todo_id (todos demo_server))" by (simp add: demo_server_def)
  have r1: "route (demo_request ''tokuuu'' (GET_todo ''1'')) = GET_todo ''1'' \<or>
            route (demo_request ''tokuuu'' (GET_todo ''1'')) = PUT_todo ''1'' Map.empty \<or>
            route (demo_request ''tokuuu'' (GET_todo ''1'')) = DELETE_todo ''1''"
    by (simp add: demo_request_def)
  have r2: "route (demo_request ''tokuuu'' (PUT_todo ''1'' [''title'' \<mapsto> ''x''])) = GET_todo ''1'' \<or>
            route (demo_request ''tokuuu'' (PUT_todo ''1'' [''title'' \<mapsto> ''x'']))
              = PUT_todo ''1'' [''title'' \<mapsto> ''x''] \<or>
            route (demo_request ''tokuuu'' (PUT_todo ''1'' [''title'' \<mapsto> ''x''])) = DELETE_todo ''1''"
    by (simp add: demo_request_def)
  have r3: "route (demo_request ''tokuuu'' (DELETE_todo ''1'')) = GET_todo ''1'' \<or>
            route (demo_request ''tokuuu'' (DELETE_todo ''1'')) = PUT_todo ''1'' Map.empty \<or>
            route (demo_request ''tokuuu'' (DELETE_todo ''1'')) = DELETE_todo ''1''"
    by (simp add: demo_request_def)
  show ?thesis
    using other_owner_todo_is_not_found [OF a r1 c m o u]
      other_owner_todo_is_not_found [OF a r2 c m o u]
      other_owner_todo_is_not_found [OF a r3 c m o u]
    by blast
qed

subsection \<open>Status values outside the enum\<close>

text \<open>
  \<^verbatim>\<open>POST /todos\<close> refuses a status that is not one of the two enum values: by its own test
  when the value is truthy, by the schema's validator when it is the empty string.
\<close>

lemma create_rejects_status_outside_enum:
  assumes auth: "authenticateToken L s (now r) (authorization r) = Next usr"
    and rt: "route r = POST_todos b"
    and st: "b ''status'' = Some v" "v \<notin> set status_enum"
  shows "\<exists>bd. handle L r s = (\<lparr>http_status = 400, body = bd\<rparr>, s)"
  using st
  by (auto simp: post_todos_gate [OF auth rt] post_todos_def Let_def truthy_def Todo_create_def
      or_else_def status_enum_def)

text \<open>
  C6. \<^verbatim>\<open>PUT /todos/:id\<close> has no such test, and \<^verbatim>\<open>findOneAndUpdate\<close> does not run the
  schema's validators: the owner's request with status \<^verbatim>\<open>archived\<close> is answered with 200
  and the stored document gets that status.
\<close>

theorem put_stores_status_outside_enum:
  "handle demo_lib
     (demo_request ''tokuu''
        (PUT_todo ''1'' [''title'' \<mapsto> ''t'', ''description'' \<mapsto> ''d'', ''status'' \<mapsto> ''archived'']))
     demo_server
   = (\<lparr>http_status = 200,
       body = TodoDoc \<lparr>todo_id = 1, userId = 2, title = ''t'', description = ''d'',
                status = ''archived'', createdAt = 0, updatedAt = 5\<rparr>\<rparr>,
      demo_server\<lparr>todos := [\<lparr>todo_id = 1, userId = 2, title = ''t'', description = ''d'',
                status = ''archived'', createdAt = 0, updatedAt = 5\<rparr>]\<rparr>)"
proof -
  have a: "authenticateToken demo_lib demo_server 5 (Some ''Bearer tokuu'')
             = Next \<lparr>jwt_userId = 2, iat = 0, exp = 3600\<rparr>"
    by (simp add: authenticateToken_def token_of_demo demo_server_def demo_lib_def
        demo_verify_def secretKey_def)
  have c: "castObjectId demo_lib ''1'' = Some 1" by (simp add: demo_lib_def)
  let ?b = "[''title'' \<mapsto> ''t'', ''description'' \<mapsto> ''d'', ''status'' \<mapsto> ''archived'']"
  have "handle demo_lib (demo_request ''tokuu'' (PUT_todo ''1'' ?b)) demo_server
          = put_todo demo_lib 5 \<lparr>jwt_userId = 2, iat = 0, exp = 3600\<rparr> ''1'' ?b demo_server"
    by (simp add: handle_def gated_def demo_request_def a)
  then show ?thesis
    by (simp add: put_todo_def Todo_findOneAndUpdate_def compile_own_filter [OF c]
        demo_server_def demo_todo_def apply_update_def or_else_def)
qed

subsection \<open>Search terms\<close>

lemma plain_Cons: "plain (c # cs) \<longleftrightarrow> c \<notin> set meta_chars \<and> plain cs"
  by (simp add: plain_def)

lemma plain_not_dot: "c \<notin> set meta_chars \<Longrightarrow> c \<noteq> CHR ''.''"
  by (auto simp: meta_chars_def)

lemma rx_prefix_plain:
  "plain p \<Longrightarrow> rx_prefix p s = prefix (map toLower p) (map toLower s)"
proof (induction p s rule: rx_prefix.induct)
  case (1 s)
  show ?case by simp
next
  case (2 p ps)
  show ?case by simp
next
  case (3 p ps c cs)
  then show ?case
    by (auto simp: plain_Cons rx_char_def dest: plain_not_dot)
qed

lemma rx_search_plain:
  "plain p \<Longrightarrow> rx_search p s = ci_substring p s"
proof (induction s)
  case Nil
  then show ?case by (cases p) (simp_all add: ci_substring_def)
next
  case (Cons c cs)
  then show ?case
    by (simp add: rx_prefix_plain ci_substring_def sublist_Cons_right del: rx_prefix.simps)
qed

lemma rx_search_plain_fun: "plain p \<Longrightarrow> rx_search p = ci_substring p"
  by (rule ext) (rule rx_search_plain)

lemma holds_Some: "holds (Some y) x = (x = y)"
  by (simp add: holds_def)

lemma regex_i_plain: "plain p \<Longrightarrow> regex_i L p = Some (rx_search p)"
  by (auto simp: regex_i_def plain_def list_all_iff)

lemma truthy_json_string: "truthy_json (map_option JStr v) = truthy v"
  by (cases v) (simp_all add: truthy_json_def truthy_def)

lemma compile_regex_plain:
  "\<forall>t. v = Some t \<longrightarrow> plain t \<Longrightarrow>
   compile_regex L (if truthy v then map_option JStr v else None)
     = Inr (\<lambda>x. case v of None \<Rightarrow> True | Some t \<Rightarrow> ci_substring t x)"
proof (cases v)
  case None
  then show ?thesis by (simp add: compile_regex_def truthy_def)
next
  case (Some t)
  assume "\<forall>t. v = Some t \<longrightarrow> plain t"
  then have p: "plain t" using Some by simp
  show ?thesis
  proof (cases "t = []")
    case True
    then show ?thesis using Some
      by (simp add: compile_regex_def truthy_def ci_substring_def)
  next
    case False
    then show ?thesis using Some p
      by (simp add: compile_regex_def truthy_def regex_i_plain rx_search_plain_fun)
  qed
qed

lemma compile_status_string:
  "compile_status L (if truthy v then map_option JStr v else None)
     = Inr (\<lambda>x. case v of None \<Rightarrow> True | Some w \<Rightarrow> w = [] \<or> x = w)"
  by (cases v) (auto simp: compile_status_def string_term_def truthy_def)

lemma todos_filter_fields:
  "f_id (todos_filter usr query) = None"
  "f_userId (todos_filter usr query) = Some (jwt_userId usr)"
  "f_title (todos_filter usr query)
     = (if truthy_json (query ''title'') then query ''title'' else None)"
  "f_description (todos_filter usr query)
     = (if truthy_json (query ''description'') then query ''description'' else None)"
  "f_status (todos_filter usr query)
     = (if truthy_json (query ''status'') then query ''status'' else None)"
  by (simp_all add: todos_filter_def Let_def no_filter_def)

text \<open>
  C8, as the code has it. When the three query terms, as far as they are given, are strings,
  and the title and description terms contain no metacharacter of regular expressions,
  \<^verbatim>\<open>GET /todos\<close> answers 200 with exactly the caller's todos in which each given title or
  description term occurs ignoring case and whose status equals the given non-empty status
  term; an absent or empty term does not constrain the result.
\<close>

theorem search_plain_terms:
  assumes strings: "query ''title'' = map_option JStr tt"
      "query ''description'' = map_option JStr dd" "query ''status'' = map_option JStr ss"
    and pt: "\<forall>t. tt = Some t \<longrightarrow> plain t"
    and pd: "\<forall>t. dd = Some t \<longrightarrow> plain t"
  shows "get_todos L usr query s =
           \<lparr>http_status = 200,
            body = TodoDocs (filter
              (\<lambda>d. userId d = jwt_userId usr
                  \<and> (case tt of None \<Rightarrow> True | Some t \<Rightarrow> ci_substring t (title d))
                  \<and> (case dd of None \<Rightarrow> True | Some t \<Rightarrow> ci_substring t (description d))
                  \<and> (case ss of None \<Rightarrow> True | Some v \<Rightarrow> v = [] \<or> status d = v))
              (todos s))\<rparr>"
proof -
  have "compile_filter L (todos_filter usr query) =
          Inr (\<lambda>d. True \<and> userId d = jwt_userId usr
                  \<and> (case tt of None \<Rightarrow> True | Some t \<Rightarrow> ci_substring t (title d))
                  \<and> (case dd of None \<Rightarrow> True | Some t \<Rightarrow> ci_substring t (description d))
                  \<and> (case ss of None \<Rightarrow> True | Some v \<Rightarrow> v = [] \<or> status d = v))"
    unfolding compile_filter_def todos_filter_fields strings truthy_json_string
    by (simp add: compile_regex_plain [OF pt] compile_regex_plain [OF pd]
        compile_status_string cast_id_def holds_Some)
  then show ?thesis
    by (simp add: get_todos_def Todo_find_def)
qed

theorem search_plain_terms_witness:
  "get_todos demo_lib \<lparr>jwt_userId = 2, iat = 0, exp = 3600\<rparr>
     [''title'' \<mapsto> JStr ''A'', ''status'' \<mapsto> JStr ''pending''] demo_server
   = \<lparr>http_status = 200, body = TodoDocs [demo_todo]\<rparr>"
proof -
  let ?q = "[''title'' \<mapsto> JStr ''A'', ''status'' \<mapsto> JStr ''pending'']"
  let ?u = "\<lparr>jwt_userId = 2, iat = 0, exp = 3600\<rparr>"
  let ?tt = "Some ''A''" and ?dd = "None :: string option" and ?ss = "Some ''pending''"
  have q1: "?q ''title'' = map_option JStr ?tt" and q2: "?q ''description'' = map_option JStr ?dd"
    and q3: "?q ''status'' = map_option JStr ?ss" by simp_all
  have pt: "\<forall>t. ?tt = Some t \<longrightarrow> plain t"
    by (simp add: plain_def meta_chars_def)
  have pd: "\<forall>t. ?dd = Some t \<longrightarrow> plain t"
    by simp
  have c: "ci_substring ''A'' ''a''"
    by code_simp
  have f: "filter
              (\<lambda>d. userId d = jwt_userId ?u
                  \<and> (case ?tt of None \<Rightarrow> True | Some t \<Rightarrow> ci_substring t (title d))
                  \<and> (case ?dd of None \<Rightarrow> True | Some t \<Rightarrow> ci_substring t (description d))
                  \<and> (case ?ss of None \<Rightarrow> True | Some v \<Rightarrow> v = [] \<or> status d = v))
              (todos demo_server) = [demo_todo]"
    using c by (simp add: demo_server_def demo_todo_def)
  show ?thesis
    by (simp only: search_plain_terms [OF q1 q2 q3 pt pd] f)
qed

text \<open>
  C8, as stated, fails in three ways. A title term is a \<^verbatim>\<open>$regex\<close> pattern, so the term
  \<^verbatim>\<open>.\<close> selects the todo titled \<^verbatim>\<open>a\<close>, in which it does not occur. A status term that is
  an object is read as an operator, so \<^verbatim>\<open>{ "$ne": "completed" }\<close> selects a todo whose
  status is \<^verbatim>\<open>pending\<close>. A status term that is the empty string is not applied at all.
\<close>

theorem search_terms_counterexample:
  "get_todos demo_lib \<lparr>jwt_userId = 2, iat = 0, exp = 3600\<rparr> [''title'' \<mapsto> JStr ''.'']
     demo_server
     = \<lparr>http_status = 200, body = TodoDocs [demo_todo]\<rparr>
   \<and> \<not> ci_substring ''.'' (title demo_todo)
   \<and> get_todos demo_lib \<lparr>jwt_userId = 2, iat = 0, exp = 3600\<rparr>
        [''status'' \<mapsto> JObj [(''$ne'', JStr ''completed'')]] demo_server
     = \<lparr>http_status = 200, body = TodoDocs [demo_todo]\<rparr>
   \<and> JStr (status demo_todo) \<noteq> JObj [(''$ne'', JStr ''completed'')]
   \<and> get_todos demo_lib \<lparr>jwt_userId = 2, iat = 0, exp = 3600\<rparr> [''status'' \<mapsto> JStr '''']
        demo_server
     = \<lparr>http_status = 200, body = TodoDocs [demo_todo]\<rparr>
   \<and> status demo_todo \<noteq> ''''"
proof -
  let ?u = "\<lparr>jwt_userId = 2, iat = 0, exp = 3600\<rparr>"
  have 1: "get_todos demo_lib ?u [''title'' \<mapsto> JStr ''.''] demo_server
     = \<lparr>http_status = 200, body = TodoDocs [demo_todo]\<rparr>"
    by (simp add: get_todos_def todos_filter_def Let_def no_filter_def truthy_json_def
        Todo_find_def compile_filter_def cast_id_def compile_regex_def compile_status_def
        regex_i_def meta_chars_def holds_def demo_server_def demo_todo_def rx_char_def)
  have 2: "\<not> ci_substring ''.'' (title demo_todo)"
    by code_simp
  have 3: "get_todos demo_lib ?u [''status'' \<mapsto> JObj [(''$ne'', JStr ''completed'')]] demo_server
     = \<lparr>http_status = 200, body = TodoDocs [demo_todo]\<rparr>"
    by (simp add: get_todos_def todos_filter_def Let_def no_filter_def truthy_json_def
        Todo_find_def compile_filter_def cast_id_def compile_regex_def compile_status_def
        string_term_def holds_def demo_server_def demo_todo_def)
  have 4: "get_todos demo_lib ?u [''status'' \<mapsto> JStr ''''] demo_server
     = \<lparr>http_status = 200, body = TodoDocs [demo_todo]\<rparr>"
    by (simp add: get_todos_def todos_filter_def Let_def no_filter_def truthy_json_def
        Todo_find_def compile_filter_def cast_id_def compile_regex_def compile_status_def
        holds_def demo_server_def demo_todo_def)
  show ?thesis using 1 2 3 4 by (simp add: demo_todo_def)
qed

subsection \<open>Logging out twice\<close>

lemma same_revoked_auth:
  "same_revoked s s' \<Longrightarrow> authenticateToken L s n h = authenticateToken L s' n h"
  by (auto simp: same_revoked_def authenticateToken_def split: option.splits)

lemma same_revoked_handle:
  assumes "same_revoked s s'"
  shows "fst (handle L r s) = fst (handle L r s')
         \<and> same_revoked (snd (handle L r s)) (snd (handle L r s'))"
proof -
  have a: "authenticateToken L s (now r) (authorization r)
             = authenticateToken L s' (now r) (authorization r)"
    using assms by (rule same_revoked_auth)
  have u: "users s = users s'" and t: "todos s = todos s'"
    and i: "set (invalidatedTokens s) = set (invalidatedTokens s')"
    using assms by (simp_all add: same_revoked_def)
  show ?thesis
  proof (cases "route r")
    case (GET_todos q)
    then show ?thesis using a assms t
      by (simp add: handle_def gated_def get_todos_def split: auth_result.splits)
  next
    case (POST_signup b)
    then show ?thesis using u t i
      by (auto simp: handle_def post_signup_def same_revoked_def split: sum.splits)
  next
    case (POST_login b)
    then show ?thesis using assms u
      by (simp add: handle_def post_login_def)
  next
    case POST_logout
    then show ?thesis using a assms u t i
      by (auto simp: handle_def gated_def post_logout_def same_revoked_def
          split: auth_result.splits option.splits)
  next
    case (POST_todos b)
    then show ?thesis using a assms u t i
      by (auto simp: handle_def gated_def post_todos_def Let_def same_revoked_def
          split: auth_result.splits sum.splits)
  next
    case (GET_todo ident)
    then show ?thesis using a assms t
      by (simp add: handle_def gated_def get_todo_def split: auth_result.splits)
  next
    case (PUT_todo ident b)
    then show ?thesis using a assms u t i
      by (auto simp: handle_def gated_def put_todo_def Let_def same_revoked_def
          split: auth_result.splits sum.splits option.splits)
  next
    case (DELETE_todo ident)
    then show ?thesis using a assms u t i
      by (auto simp: handle_def gated_def delete_todo_def same_revoked_def
          split: auth_result.splits sum.splits option.splits)
  qed
qed

lemma same_revoked_run:
  "same_revoked s s' \<Longrightarrow> fst (run L rs s) = fst (run L rs s')"
proof (induction rs arbitrary: s s')
  case Nil
  show ?case by simp
next
  case (Cons r rs)
  have h: "fst (handle L r s) = fst (handle L r s')"
    and n: "same_revoked (snd (handle L r s)) (snd (handle L r s'))"
    using same_revoked_handle [OF Cons.prems] by simp_all
  have "fst (run L rs (snd (handle L r s))) = fst (run L rs (snd (handle L r s')))"
    using n by (rule Cons.IH)
  then show ?case using h
    by (simp add: split_beta)
qed

text \<open>
  C9, as the code has it. After a successful logout, a second logout with the same header is
  stopped by the gate: status 401, \<^verbatim>\<open>Token has been invalidated\<close>, state unchanged, so all
  later responses are those after one logout. The push itself is idempotent for every later
  request sequence: running the handler body once more on the resulting state changes no
  later response.
\<close>

theorem second_logout_rejected_state_same:
  assumes logout: "route r = POST_logout" "handle L r s = (res, s1)" "http_status res = 200"
    and again: "route r2 = POST_logout" "authorization r2 = authorization r"
  shows "handle L r2 s1
           = (\<lparr>http_status = 401, body = Error ''Token has been invalidated''\<rparr>, s1)
         \<and> fst (run L rs (snd (post_logout (authorization r) s1))) = fst (run L rs s1)"
proof -
  obtain t where t: "token_of (authorization r) = Some t" "t \<noteq> []"
      "t \<in> set (invalidatedTokens s1)"
    using logout_ok_revokes [OF logout] by blast
  have "authenticateToken L s1 (now r2) (authorization r2)
          = Respond \<lparr>http_status = 401, body = Error ''Token has been invalidated''\<rparr>"
    using t again(2) by (simp add: auth_revoked)
  then have 1: "handle L r2 s1
           = (\<lparr>http_status = 401, body = Error ''Token has been invalidated''\<rparr>, s1)"
    using again(1) by (simp add: gated_reject is_gated_def)
  have "same_revoked (snd (post_logout (authorization r) s1)) s1"
    using t by (auto simp: post_logout_def same_revoked_def)
  then have "fst (run L rs (snd (post_logout (authorization r) s1))) = fst (run L rs s1)"
    by (rule same_revoked_run)
  then show ?thesis using 1 by simp
qed

theorem second_logout_rejected_state_same_witness:
  "handle demo_lib (demo_request ''tokuu'' POST_logout) (demo_server\<lparr>invalidatedTokens := [''tokuu'']\<rparr>)
     = (\<lparr>http_status = 401, body = Error ''Token has been invalidated''\<rparr>,
        demo_server\<lparr>invalidatedTokens := [''tokuu'']\<rparr>)"
proof -
  let ?r = "demo_request ''tokuu'' POST_logout"
  have r: "route ?r = POST_logout" by (simp add: demo_request_def)
  have ok: "http_status \<lparr>http_status = 200, body = Message ''Logout successful''\<rparr> = 200"
    by simp
  from second_logout_rejected_state_same [OF r demo_logout ok r refl]
  show ?thesis by simp
qed

text \<open>
  C9, as stated, fails in its last part: the second of two logouts with the same token is
  answered with an error.
\<close>

theorem second_logout_counterexample:
  "fst (run demo_lib [demo_request ''tokuu'' POST_logout, demo_request ''tokuu'' POST_logout]
          demo_server)
     = [\<lparr>http_status = 200, body = Message ''Logout successful''\<rparr>,
        \<lparr>http_status = 401, body = Error ''Token has been invalidated''\<rparr>]"
proof -
  have "handle demo_lib (demo_request ''tokuu'' POST_logout)
          (demo_server\<lparr>invalidatedTokens := [''tokuu'']\<rparr>)
     = (\<lparr>http_status = 401, body = Error ''Token has been invalidated''\<rparr>,
        demo_server\<lparr>invalidatedTokens := [''tokuu'']\<rparr>)"
    by (simp add: handle_def gated_def demo_request_def authenticateToken_def token_of_demo
        demo_server_def)
  then show ?thesis
    by (simp add: demo_logout)
qed

end
